theory Spec2Isabelle
  imports Main "HOL-Library.Sublist"
begin

section \<open>Strings as the program uses them\<close>

text \<open>
  Python strings are modelled as \<^typ>\<open>string\<close>. The model is exact on ASCII text: \<open>lower\<close>
  maps the letters A to Z to a to z and leaves every other character alone, and \<open>strip\<close>
  removes the ASCII characters for which Python's \<^verbatim>\<open>str.isspace\<close> holds.
\<close>

definition ascii_uppercase :: string where
  "ascii_uppercase = ''ABCDEFGHIJKLMNOPQRSTUVWXYZ''"

definition ascii_lowercase :: string where
  "ascii_lowercase = ''abcdefghijklmnopqrstuvwxyz''"

definition lower_char :: "char \<Rightarrow> char" where
  "lower_char c =
     (case map_of (zip ascii_uppercase ascii_lowercase) c of
        Some d \<Rightarrow> d
      | None \<Rightarrow> c)"

definition lower :: "string \<Rightarrow> string" where
  "lower s = map lower_char s"

text \<open>\<^verbatim>\<open>s.isascii()\<close>: every character is below 128.\<close>

definition is_ascii :: "string \<Rightarrow> bool" where
  "is_ascii s = list_all (\<lambda>c. (of_char c :: nat) < 128) s"

text \<open>Two characters that are equal or the two cases of one letter.\<close>

definition case_variants :: "char \<Rightarrow> char \<Rightarrow> bool" where
  "case_variants x y =
     (x = y \<or> (x, y) \<in> set (zip ascii_uppercase ascii_lowercase)
            \<or> (y, x) \<in> set (zip ascii_uppercase ascii_lowercase))"

definition isspace :: "char \<Rightarrow> bool" where
  "isspace c =
     (c \<in> set [CHR 0x09, CHR 0x0A, CHR 0x0B, CHR 0x0C, CHR 0x0D,
                CHR 0x1C, CHR 0x1D, CHR 0x1E, CHR 0x1F, CHR 0x20])"

definition strip :: "string \<Rightarrow> string" where
  "strip s = rev (dropWhile isspace (rev (dropWhile isspace s)))"

text \<open>\<^verbatim>\<open>s.startswith(p)\<close> and \<^verbatim>\<open>sub in s\<close>.\<close>

definition startswith :: "string \<Rightarrow> string \<Rightarrow> bool" where
  "startswith s p = prefix p s"

definition contains :: "string \<Rightarrow> string \<Rightarrow> bool" where
  "contains s sub = sublist sub s"

text \<open>Truthiness of a value that is \<^verbatim>\<open>None\<close> or a \<^verbatim>\<open>str\<close>.\<close>

fun truthy :: "string option \<Rightarrow> bool" where
  "truthy None = False"
| "truthy (Some s) = (s \<noteq> [])"

definition bslash :: char where
  "bslash = CHR 0x5C"

definition squote :: char where
  "squote = CHR 0x27"

definition dquote :: char where
  "dquote = CHR 0x22"


section \<open>The host: what the operating system answers, and what it is asked\<close>

text \<open>
  The program talks to the operating system through six primitives. Their answers are
  parameters of the model (a record of functions); every call the program makes is logged
  as an event, in order, so that "this strategy was not invoked" and "no process was
  started" are statements about the log.
\<close>

datatype reg_result =
    RegValue string        \<comment> \<open>\<^verbatim>\<open>QueryValueEx\<close> returned the default value\<close>
  | RegKeyMissing          \<comment> \<open>\<^verbatim>\<open>FileNotFoundError\<close>\<close>
  | RegFailure string      \<comment> \<open>any other \<^verbatim>\<open>Exception\<close>, with \<^verbatim>\<open>str(e)\<close>\<close>

datatype exn_kind = FileNotFoundError | OtherException

datatype start_result =
    Started
  | Raised exn_kind string \<comment> \<open>the exception raised, with \<^verbatim>\<open>str(e)\<close>\<close>

datatype run_result =
    Completed int string string  \<comment> \<open>return code, captured stdout, captured stderr\<close>
  | RunRaised string             \<comment> \<open>\<^verbatim>\<open>subprocess.run\<close> raised, with \<^verbatim>\<open>str(e)\<close>\<close>

record host =
  sys_platform :: string
  shutil_which :: "string \<Rightarrow> string option"
  winreg_query :: "string \<Rightarrow> reg_result"
  subprocess_Popen :: "string \<Rightarrow> start_result"
  os_startfile :: "string \<Rightarrow> start_result"
  subprocess_run :: "string \<Rightarrow> run_result"

datatype event =
    Which string       \<comment> \<open>\<^verbatim>\<open>shutil.which(name)\<close>\<close>
  | RegOpen string     \<comment> \<open>\<^verbatim>\<open>winreg.OpenKey(HKEY_LOCAL_MACHINE, key_path)\<close>\<close>
  | Print string       \<comment> \<open>\<^verbatim>\<open>print\<close> inside \<^verbatim>\<open>open_program\<close>\<close>
  | Popen string       \<comment> \<open>\<^verbatim>\<open>subprocess.Popen(cmd, shell=True)\<close>\<close>
  | StartFile string   \<comment> \<open>\<^verbatim>\<open>os.startfile(name)\<close>\<close>
  | Run string         \<comment> \<open>\<^verbatim>\<open>subprocess.run(cmd, shell=True, stdout=PIPE, stderr=PIPE)\<close>\<close>

fun starts_process :: "event \<Rightarrow> bool" where
  "starts_process (Popen c) = True"
| "starts_process (StartFile c) = True"
| "starts_process (Run c) = True"
| "starts_process (Which c) = False"
| "starts_process (RegOpen c) = False"
| "starts_process (Print c) = False"

fun is_registry_access :: "event \<Rightarrow> bool" where
  "is_registry_access (RegOpen k) = True"
| "is_registry_access (Which c) = False"
| "is_registry_access (Print c) = False"
| "is_registry_access (Popen c) = False"
| "is_registry_access (StartFile c) = False"
| "is_registry_access (Run c) = False"


section \<open>Program Resolver\<close>

text \<open>The table \<^verbatim>\<open>office_programs\<close> of \<^verbatim>\<open>find_office_path\<close>.\<close>

definition office_programs :: "(string \<times> string) list" where
  "office_programs =
     [(''word'', ''WINWORD.EXE''),
      (''excel'', ''EXCEL.EXE''),
      (''powerpoint'', ''POWERPNT.EXE''),
      (''outlook'', ''OUTLOOK.EXE''),
      (''access'', ''MSACCESS.EXE''),
      (''publisher'', ''MSPUB.EXE'')]"

text \<open>The raw f-string of the registry key: the App Paths prefix, then the executable name.\<close>

definition app_paths_key :: "string \<Rightarrow> string" where
  "app_paths_key executable_name =
     ''SOFTWARE'' @ [bslash] @ ''Microsoft'' @ [bslash] @ ''Windows'' @ [bslash]
       @ ''CurrentVersion'' @ [bslash] @ ''App Paths'' @ [bslash] @ executable_name"

definition office_executable :: "string \<Rightarrow> string" where
  "office_executable program_name =
     (case map_of office_programs (lower program_name) of
        Some e \<Rightarrow> e
      | None \<Rightarrow> program_name)"

definition find_office_path :: "host \<Rightarrow> string \<Rightarrow> event list \<times> string" where
  "find_office_path h program_name =
     (let executable_name = office_executable program_name;
          key_path = app_paths_key executable_name
      in ([RegOpen key_path],
          (case winreg_query h key_path of
             RegValue program_path \<Rightarrow> program_path
           | RegKeyMissing \<Rightarrow> ''Error: '' @ program_name @ '' not found in the registry.''
           | RegFailure e \<Rightarrow> ''Error while accessing registry: '' @ e)))"

definition find_program_path :: "host \<Rightarrow> string \<Rightarrow> event list \<times> string option" where
  "find_program_path h program_name =
     (let executable_name = lower program_name;
          path = shutil_which h executable_name
      in ([Which executable_name], if truthy path then path else None))"

text \<open>
  \<^verbatim>\<open>find_program_path\<close> once more, with \<^verbatim>\<open>str.lower\<close> as a parameter. Beyond ASCII,
  Python lowers a name by the Unicode tables of its runtime, with rules that look at the
  neighbours of a letter; these are not part of the program, so the function is taken as
  it comes. On ASCII names it is \<open>lower\<close>, and \<open>find_program_path\<close> above is this
  definition at \<open>lower\<close>.
\<close>

definition find_program_path_with ::
  "(string \<Rightarrow> string) \<Rightarrow> host \<Rightarrow> string \<Rightarrow> event list \<times> string option" where
  "find_program_path_with str_lower h program_name =
     (let executable_name = str_lower program_name;
          path = shutil_which h executable_name
      in ([Which executable_name], if truthy path then path else None))"

text \<open>
  The first two lines of \<^verbatim>\<open>open_program\<close>: the search path first, the registry only
  when the search path gave nothing.
\<close>

definition resolve :: "host \<Rightarrow> string \<Rightarrow> event list \<times> string option" where
  "resolve h program_name =
     (case find_program_path h program_name of
        (ev1, path) \<Rightarrow>
          if \<not> truthy path
          then (case find_office_path h program_name of (ev2, p) \<Rightarrow> (ev1 @ ev2, Some p))
          else (ev1, path))"


section \<open>Launching\<close>

definition msg_opened :: "string \<Rightarrow> string" where
  "msg_opened program_name =
     ''Program '' @ [squote] @ program_name @ [squote] @ '' opened successfully.''"

definition msg_not_found :: "string \<Rightarrow> string" where
  "msg_not_found program_name =
     ''Error: Program '' @ [squote] @ program_name @ [squote] @ '' not found.''"

definition msg_open_failed :: "string \<Rightarrow> string" where
  "msg_open_failed e = ''Error while opening program: '' @ e"

text \<open>The branch \<^verbatim>\<open>if path:\<close> of \<^verbatim>\<open>open_program\<close>: the path, quoted, through the shell.\<close>

definition launch_path :: "host \<Rightarrow> string \<Rightarrow> string \<Rightarrow> event list \<times> string" where
  "launch_path h program_name path =
     (let cmd = [dquote] @ path @ [dquote]
      in ([Print (''Path for '' @ program_name @ '': '' @ path), Popen cmd],
          (case subprocess_Popen h cmd of
             Started \<Rightarrow> msg_opened program_name
           | Raised k e \<Rightarrow> msg_open_failed e)))"

text \<open>
  The branch \<^verbatim>\<open>else:\<close> of \<^verbatim>\<open>open_program\<close>: \<^verbatim>\<open>Popen\<close> and then \<^verbatim>\<open>os.startfile\<close>,
  both inside one \<^verbatim>\<open>try\<close>; the first exception ends the block.
\<close>

definition launch_raw :: "host \<Rightarrow> string \<Rightarrow> event list \<times> string" where
  "launch_raw h program_name =
     (case subprocess_Popen h program_name of
        Raised FileNotFoundError e \<Rightarrow> ([Popen program_name], msg_not_found program_name)
      | Raised OtherException e \<Rightarrow> ([Popen program_name], msg_open_failed e)
      | Started \<Rightarrow>
          ([Popen program_name, StartFile program_name],
           (case os_startfile h program_name of
              Started \<Rightarrow> msg_opened program_name
            | Raised FileNotFoundError e \<Rightarrow> msg_not_found program_name
            | Raised OtherException e \<Rightarrow> msg_open_failed e)))"

definition open_program :: "host \<Rightarrow> string \<Rightarrow> event list \<times> string" where
  "open_program h program_name =
     (case resolve h program_name of
        (ev, path) \<Rightarrow>
          (case (case path of
                   None \<Rightarrow> launch_raw h program_name
                 | Some p \<Rightarrow>
                     if p \<noteq> [] then launch_path h program_name p
                     else launch_raw h program_name) of
             (ev', r) \<Rightarrow> (ev @ ev', r)))"


section \<open>Action Dispatcher and Command Executor\<close>

text \<open>
  \<^verbatim>\<open>details\<close> is the dictionary decoded from the model's answer; its values are taken to
  be strings, as the annotation \<^verbatim>\<open>program_name: str\<close> of \<^verbatim>\<open>open_program\<close> requires.
\<close>

type_synonym details = "string \<rightharpoonup> string"

definition dict_get :: "details \<Rightarrow> string \<Rightarrow> string \<Rightarrow> string" where
  "dict_get d k dflt = (case d k of Some v \<Rightarrow> v | None \<Rightarrow> dflt)"

definition is_win :: "host \<Rightarrow> bool" where
  "is_win h = startswith (sys_platform h) ''win''"

definition construct_command :: "host \<Rightarrow> string \<Rightarrow> details \<Rightarrow> event list \<times> string" where
  "construct_command h action details =
     (if action = ''open_program'' then
        (let program = dict_get details ''program'' '''' in
         if program = [] then ([], ''Error: No program specified to open.'')
         else open_program h program)
      else if action = ''list_directory'' then
        (let path = dict_get details ''path'' ''.'' in
         ([], if is_win h then ''dir '' @ path else ''ls '' @ path))
      else if action = ''show_path'' then
        ([], if is_win h then ''echo %cd%'' else ''pwd'')
      else ([], ''Error: Unsupported action.''))"

definition run_command :: "host \<Rightarrow> string \<Rightarrow> event list \<times> string" where
  "run_command h command =
     (if startswith command ''Error'' then ([], command)
      else ([Run command],
            (case subprocess_run h command of
               Completed returncode out err \<Rightarrow>
                 if returncode = 0 then out else ''Error: '' @ err
             | RunRaised e \<Rightarrow> ''Error while executing command: '' @ e)))"


section \<open>Intent Parser\<close>

text \<open>
  \<^verbatim>\<open>re.search(r"\{.*\}", s, re.DOTALL)\<close>: the leftmost match starts at the first opening
  brace that has a closing brace after it, which is the first opening brace of \<open>s\<close> if
  there is a match at all; the greedy \<^verbatim>\<open>.*\<close> (matching newlines too) runs to the last
  closing brace of \<open>s\<close>.
\<close>

definition search_braces :: "string \<Rightarrow> string option" where
  "search_braces s =
     (case dropWhile (\<lambda>c. c \<noteq> CHR ''{'') s of
        [] \<Rightarrow> None
      | b # rest \<Rightarrow>
          (case dropWhile (\<lambda>c. c \<noteq> CHR ''}'') (rev rest) of
             [] \<Rightarrow> None
           | c # cs \<Rightarrow> Some (b # rev (c # cs))))"

text \<open>
  \<^verbatim>\<open>query_model\<close>, as a function of what running the model returned.
\<close>

definition query_model :: "run_result \<Rightarrow> string" where
  "query_model result =
     (case result of
        Completed returncode out err \<Rightarrow>
          if returncode = 0 then
            (let raw_output = strip out in
             case search_braces raw_output of
               Some m \<Rightarrow> m
             | None \<Rightarrow> ''Error: No valid JSON found in model output.'')
          else ''Error from model: '' @ err
      | RunRaised e \<Rightarrow> ''Error while querying model: '' @ e)"

text \<open>
  The body of the loop of \<^verbatim>\<open>main\<close> up to the call of \<^verbatim>\<open>construct_command\<close>. The
  deserializer \<^verbatim>\<open>json.loads\<close> is a parameter: \<open>None\<close> stands for \<^verbatim>\<open>JSONDecodeError\<close>.
\<close>

datatype parsed = ParseError string | Intent string details

definition parse :: "(string \<Rightarrow> details option) \<Rightarrow> string \<Rightarrow> parsed" where
  "parse loads model_output =
     (if contains model_output ''Error'' then ParseError model_output
      else (case loads model_output of
              None \<Rightarrow> ParseError ''Error: Invalid JSON output from model.''
            | Some data \<Rightarrow>
                (case data ''action'' of
                   None \<Rightarrow> ParseError ''Error: No action provided by the model.''
                 | Some action \<Rightarrow>
                     if action = [] then ParseError ''Error: No action provided by the model.''
                     else Intent action data)))"

text \<open>
  The rest of the loop body: \<^verbatim>\<open>run_command\<close> is called for every action but
  \<^verbatim>\<open>open_program\<close>, whose result is printed as it is.
\<close>

definition execute_intent :: "host \<Rightarrow> string \<Rightarrow> details \<Rightarrow> event list \<times> string" where
  "execute_intent h action data =
     (case construct_command h action data of
        (ev, command) \<Rightarrow>
          if action \<noteq> ''open_program''
          then (case run_command h command of (ev', result) \<Rightarrow> (ev @ ev', result))
          else (ev, command))"


section \<open>Example hosts\<close>

text \<open>A Windows host with an empty search path and an empty registry.\<close>

definition host_empty :: host where
  "host_empty =
     \<lparr>sys_platform = ''win32'',
      shutil_which = (\<lambda>n. None),
      winreg_query = (\<lambda>k. RegKeyMissing),
      subprocess_Popen = (\<lambda>c. Started),
      os_startfile = (\<lambda>n. Started),
      subprocess_run = (\<lambda>c. Completed 0 [] [])\<rparr>"

text \<open>
  A Windows host with \<^verbatim>\<open>notepad\<close> on the search path, a registry that refuses access,
  and a shell that knows \<^verbatim>\<open>echo %cd%\<close> only.
\<close>

definition notepad_exe :: string where
  "notepad_exe = ''C:'' @ [bslash] @ ''Windows'' @ [bslash] @ ''notepad.EXE''"

definition host_notepad :: host where
  "host_notepad =
     \<lparr>sys_platform = ''win32'',
      shutil_which = (\<lambda>n. if n = ''notepad'' then Some notepad_exe else None),
      winreg_query = (\<lambda>k. RegFailure ''Access is denied''),
      subprocess_Popen = (\<lambda>c. Started),
      os_startfile = (\<lambda>n. Started),
      subprocess_run =
        (\<lambda>c. if c = ''echo %cd%'' then Completed 0 ''C:/Users'' []
             else Completed 1 [] ''File Not Found'')\<rparr>"

text \<open>
  Greek names, in UTF-8: capital alpha (U+0391) is the bytes CE 91, small alpha (U+03B1)
  is CE B1, capital sigma (U+03A3) is CE A3, small sigma (U+03C3) is CF 83 and final small
  sigma (U+03C2) is CF 82.
\<close>

definition sigma_upper :: string where
  "sigma_upper = [CHR 0xCE, CHR 0xA3]"

definition sigma_lower :: string where
  "sigma_lower = [CHR 0xCF, CHR 0x83]"

definition alpha_sigma_upper :: string where
  "alpha_sigma_upper = [CHR 0xCE, CHR 0x91, CHR 0xCE, CHR 0xA3]"

definition alpha_sigma_mixed :: string where
  "alpha_sigma_mixed = [CHR 0xCE, CHR 0x91, CHR 0xCF, CHR 0x83]"

definition alpha_sigma_lower :: string where
  "alpha_sigma_lower = [CHR 0xCE, CHR 0xB1, CHR 0xCF, CHR 0x83]"

definition alpha_sigma_final :: string where
  "alpha_sigma_final = [CHR 0xCE, CHR 0xB1, CHR 0xCF, CHR 0x82]"

text \<open>
  A lowering function for the examples. It agrees with \<^verbatim>\<open>str.lower\<close> on every ASCII text
  and on the three Greek texts it knows: a capital sigma alone becomes a small sigma, at the
  end of a word after a letter it becomes a final sigma, and a small sigma stays as it is.
\<close>

definition lower_example :: "string \<Rightarrow> string" where
  "lower_example s =
     (if s = sigma_upper then sigma_lower
      else if s = alpha_sigma_upper then alpha_sigma_final
      else if s = alpha_sigma_mixed then alpha_sigma_lower
      else lower s)"

text \<open>A Windows host whose search path holds one program, named alpha sigma in small letters.\<close>

definition host_sigma :: host where
  "host_sigma =
     \<lparr>sys_platform = ''win32'',
      shutil_which = (\<lambda>n. if n = alpha_sigma_lower then Some (''C:/tools/'' @ n @ ''.exe'') else None),
      winreg_query = (\<lambda>k. RegKeyMissing),
      subprocess_Popen = (\<lambda>c. Started),
      os_startfile = (\<lambda>n. Started),
      subprocess_run = (\<lambda>c. Completed 0 [] [])\<rparr>"

text \<open>
  A deserializer for the examples: it agrees with \<^verbatim>\<open>json.loads\<close> on the two objects it
  knows, and rejects every other text, as \<^verbatim>\<open>json.loads\<close> rejects an object followed by
  further text.
\<close>

definition loads_example :: "string \<Rightarrow> details option" where
  \<open>loads_example s =
     (if s = ''{"action":"show_path"}'' then Some [''action'' \<mapsto> ''show_path'']
      else if s = ''{"action":"open_program","program":"Error Reporting"}''
      then Some [''action'' \<mapsto> ''open_program'', ''program'' \<mapsto> ''Error Reporting'']
      else None)\<close>

section \<open>Lower case\<close>

lemmas lower_simps = lower_def lower_char_def ascii_uppercase_def ascii_lowercase_def

lemma distinct_ascii_uppercase: "distinct ascii_uppercase"
  by (simp add: ascii_uppercase_def)

lemma length_ascii_cases: "length ascii_uppercase = length ascii_lowercase"
  by (simp add: ascii_uppercase_def ascii_lowercase_def)

lemma ascii_cases_disjoint: "set ascii_uppercase \<inter> set ascii_lowercase = {}"
  by (simp add: ascii_uppercase_def ascii_lowercase_def)

lemma fst_zip_ascii_cases: "fst ` set (zip ascii_uppercase ascii_lowercase) = set ascii_uppercase"
  using length_ascii_cases by (metis list.set_map map_fst_zip)

lemma zip_case_lower:
  assumes "(x, y) \<in> set (zip ascii_uppercase ascii_lowercase)"
  shows "lower_char x = y \<and> lower_char y = y"
proof -
  have "distinct (map fst (zip ascii_uppercase ascii_lowercase))"
    using distinct_ascii_uppercase length_ascii_cases by simp
  then have x: "map_of (zip ascii_uppercase ascii_lowercase) x = Some y"
    using assms by (rule map_of_is_SomeI)
  have "y \<in> set ascii_lowercase"
    using assms by (rule set_zip_rightD)
  then have "y \<notin> set ascii_uppercase"
    using ascii_cases_disjoint by blast
  then have y: "map_of (zip ascii_uppercase ascii_lowercase) y = None"
    by (simp add: map_of_eq_None_iff fst_zip_ascii_cases)
  show ?thesis
    unfolding lower_char_def x y by simp
qed

lemma case_variants_lower_char: "case_variants x y \<Longrightarrow> lower_char x = lower_char y"
  unfolding case_variants_def using zip_case_lower by metis

lemma case_variants_lower: "list_all2 case_variants a b \<Longrightarrow> lower a = lower b"
  by (induction a b rule: list_all2_induct) (auto simp: lower_def case_variants_lower_char)

lemma lower_char_not_upper: "lower_char c \<notin> set ascii_uppercase"
proof (cases "map_of (zip ascii_uppercase ascii_lowercase) c")
  case None
  then have "c \<notin> set ascii_uppercase"
    by (simp add: map_of_eq_None_iff fst_zip_ascii_cases)
  then show ?thesis
    by (simp add: lower_char_def None)
next
  case (Some d)
  then have "(c, d) \<in> set (zip ascii_uppercase ascii_lowercase)"
    by (rule map_of_SomeD)
  then have "d \<in> set ascii_lowercase"
    by (rule set_zip_rightD)
  then have "d \<notin> set ascii_uppercase"
    using ascii_cases_disjoint by blast
  then show ?thesis
    by (simp add: lower_char_def Some)
qed

lemma lower_no_upper: "set (lower s) \<inter> set ascii_uppercase = {}"
proof -
  have "\<And>c. c \<in> set (lower s) \<Longrightarrow> c \<notin> set ascii_uppercase"
    unfolding lower_def using lower_char_not_upper by (metis imageE list.set_map)
  then show ?thesis by blast
qed


section \<open>Program Resolver: the registry strategy\<close>

text \<open>
  C1, as the specification states it: a lookup key that is absent from the registry gives an
  absence result, not an error. It fails: on a host whose registry has no entry,
  \<^verbatim>\<open>find_office_path("foo")\<close> returns the message "Error: foo not found in the registry.",
  a non-empty string, which Python takes for true.
\<close>

theorem find_office_path_absent_key_counterexample:
  "winreg_query host_empty (app_paths_key (office_executable ''foo'')) = RegKeyMissing \<and>
   snd (find_office_path host_empty ''foo'') = ''Error: foo not found in the registry.'' \<and>
   truthy (Some (snd (find_office_path host_empty ''foo'')))"
  by (simp add: find_office_path_def host_empty_def Let_def)

text \<open>
  C1, amended: \<^verbatim>\<open>find_office_path\<close> makes one registry access and always returns a string.
  When the key is absent the string is the message "Error: <name> not found in the
  registry."; when the access fails otherwise it is "Error while accessing registry: "
  followed by the failure's text. No exception leaves the function.
\<close>

theorem find_office_path_diagnostics:
  "(winreg_query h (app_paths_key (office_executable name)) = RegKeyMissing \<longrightarrow>
      find_office_path h name =
        ([RegOpen (app_paths_key (office_executable name))],
         ''Error: '' @ name @ '' not found in the registry.'')) \<and>
   (winreg_query h (app_paths_key (office_executable name)) = RegFailure e \<longrightarrow>
      find_office_path h name =
        ([RegOpen (app_paths_key (office_executable name))],
         ''Error while accessing registry: '' @ e))"
  by (simp add: find_office_path_def Let_def)

theorem find_office_path_diagnostics_witness:
  "winreg_query host_empty (app_paths_key (office_executable ''foo'')) = RegKeyMissing \<and>
   find_office_path host_empty ''foo'' =
     ([RegOpen (app_paths_key ''foo'')], ''Error: foo not found in the registry.'') \<and>
   winreg_query host_notepad (app_paths_key (office_executable ''Excel'')) =
     RegFailure ''Access is denied'' \<and>
   find_office_path host_notepad ''Excel'' =
     ([RegOpen (app_paths_key ''EXCEL.EXE'')],
      ''Error while accessing registry: Access is denied'')"
proof -
  have a: "winreg_query host_empty (app_paths_key (office_executable ''foo'')) = RegKeyMissing"
    by (simp add: host_empty_def)
  have b: "winreg_query host_notepad (app_paths_key (office_executable ''Excel'')) =
      RegFailure ''Access is denied''"
    by (simp add: host_notepad_def)
  have c: "office_executable ''foo'' = ''foo''"
    by (simp add: office_executable_def office_programs_def lower_simps)
  have d: "office_executable ''Excel'' = ''EXCEL.EXE''"
    by (simp add: office_executable_def office_programs_def lower_simps)
  show ?thesis
    using find_office_path_diagnostics [where h = host_empty and name = "''foo''"]
      find_office_path_diagnostics
        [where h = host_notepad and name = "''Excel''" and e = "''Access is denied''"]
      a b c d
    by simp
qed


section \<open>The fallback launch\<close>

text \<open>
  C2: when neither strategy finds the program, the raw name is to be launched, and a failure
  reported as "not found". On a host with an empty search path and an empty registry,
  \<^verbatim>\<open>open_program("Notepad")\<close> takes the registry's message for a path: it asks the shell to
  run that message, quoted, never touches the name \<^verbatim>\<open>Notepad\<close>, and reports success.
\<close>

theorem open_program_unresolved_launches_message:
  "open_program host_empty ''Notepad'' =
     ([Which ''notepad'',
       RegOpen (app_paths_key ''Notepad''),
       Print ''Path for Notepad: Error: Notepad not found in the registry.'',
       Popen ([dquote] @ ''Error: Notepad not found in the registry.'' @ [dquote])],
      msg_opened ''Notepad'')"
  by (simp add: open_program_def resolve_def find_program_path_def find_office_path_def
      host_empty_def lower_simps office_executable_def office_programs_def launch_path_def
      Let_def)


section \<open>Action Dispatcher\<close>

lemma open_program_starts: "list_ex starts_process (fst (open_program h p))"
  by (auto simp: open_program_def launch_path_def launch_raw_def Let_def
      split: prod.splits option.splits start_result.splits exn_kind.splits)

text \<open>
  C3, as the specification states it: \<^verbatim>\<open>construct_command\<close> starts no process. It fails for
  \<^verbatim>\<open>open_program\<close>: with \<^verbatim>\<open>notepad\<close> on the search path, the call itself runs \<^verbatim>\<open>Popen\<close>.
\<close>

theorem construct_command_starts_process_counterexample:
  "fst (construct_command host_notepad ''open_program'' [''program'' \<mapsto> ''notepad'']) =
     [Which ''notepad'',
      Print (''Path for notepad: '' @ notepad_exe),
      Popen ([dquote] @ notepad_exe @ [dquote])] \<and>
   list_ex starts_process
     (fst (construct_command host_notepad ''open_program'' [''program'' \<mapsto> ''notepad'']))"
  by (simp add: construct_command_def dict_get_def open_program_def resolve_def
      find_program_path_def host_notepad_def lower_simps launch_path_def Let_def
      notepad_exe_def)

text \<open>
  C3, amended: for every action other than \<^verbatim>\<open>open_program\<close>, and for \<^verbatim>\<open>open_program\<close>
  without a program, \<^verbatim>\<open>construct_command\<close> makes no call to the operating system. For
  \<^verbatim>\<open>open_program\<close> with a program it resolves and launches the program itself, starting at
  least one process, and the main loop does not pass its result to \<^verbatim>\<open>run_command\<close>.
\<close>

theorem construct_command_effects:
  "(action \<noteq> ''open_program'' \<or> dict_get details ''program'' [] = [] \<longrightarrow>
      fst (construct_command h action details) = []) \<and>
   (action = ''open_program'' \<and> dict_get details ''program'' [] \<noteq> [] \<longrightarrow>
      list_ex starts_process (fst (construct_command h action details)) \<and>
      execute_intent h action details = construct_command h action details)"
  using open_program_starts by (auto simp: construct_command_def execute_intent_def Let_def)

theorem construct_command_effects_witness:
  "fst (construct_command host_empty ''list_directory'' [''path'' \<mapsto> ''C:/Users'']) = [] \<and>
   dict_get [''program'' \<mapsto> ''notepad''] ''program'' [] \<noteq> [] \<and>
   list_ex starts_process
     (fst (construct_command host_notepad ''open_program'' [''program'' \<mapsto> ''notepad''])) \<and>
   execute_intent host_notepad ''open_program'' [''program'' \<mapsto> ''notepad''] =
     construct_command host_notepad ''open_program'' [''program'' \<mapsto> ''notepad'']"
proof -
  have a: "''list_directory'' \<noteq> ''open_program''" by simp
  have b: "dict_get [''program'' \<mapsto> ''notepad''] ''program'' [] \<noteq> []"
    by (simp add: dict_get_def)
  show ?thesis
    using construct_command_effects
        [where action = "''list_directory''" and h = host_empty
           and details = "[''path'' \<mapsto> ''C:/Users'']"]
      construct_command_effects
        [where action = "''open_program''" and h = host_notepad
           and details = "[''program'' \<mapsto> ''notepad'']"]
      a b
    by simp
qed

text \<open>
  C8: for \<^verbatim>\<open>open_program\<close> with the program absent or empty, \<^verbatim>\<open>construct_command\<close> returns
  the error "Error: No program specified to open." and makes no call at all, so the
  resolver is not run.
\<close>

theorem construct_command_no_program:
  "details ''program'' = None \<or> details ''program'' = Some [] \<Longrightarrow>
   construct_command h ''open_program'' details =
     ([], ''Error: No program specified to open.'')"
  by (auto simp: construct_command_def dict_get_def)

theorem construct_command_no_program_witness:
  "(Map.empty :: details) ''program'' = None \<and>
   construct_command host_notepad ''open_program'' Map.empty =
     ([], ''Error: No program specified to open.'') \<and>
   [''program'' \<mapsto> []] ''program'' = Some [] \<and>
   construct_command host_notepad ''open_program'' [''program'' \<mapsto> []] =
     ([], ''Error: No program specified to open.'')"
  using construct_command_no_program [of Map.empty host_notepad]
    construct_command_no_program [of "[''program'' \<mapsto> []]" host_notepad]
  by simp


section \<open>Program Resolver: the order of the strategies\<close>

text \<open>
  C4: when the search of the path finds the program, \<^verbatim>\<open>open_program\<close> resolves to that path
  after the one call of \<^verbatim>\<open>shutil.which\<close>, and neither the resolution nor the launch that
  follows accesses the registry.
\<close>

theorem resolve_search_path_first:
  "snd (find_program_path h name) = Some p \<Longrightarrow>
   resolve h name = ([Which (lower name)], Some p) \<and>
   \<not> list_ex is_registry_access (fst (resolve h name)) \<and>
   \<not> list_ex is_registry_access (fst (open_program h name))"
  by (auto simp: find_program_path_def resolve_def open_program_def launch_path_def Let_def
      split: if_splits)

theorem resolve_search_path_first_witness:
  "snd (find_program_path host_notepad ''Notepad'') = Some notepad_exe \<and>
   resolve host_notepad ''Notepad'' = ([Which ''notepad''], Some notepad_exe) \<and>
   \<not> list_ex is_registry_access (fst (resolve host_notepad ''Notepad'')) \<and>
   \<not> list_ex is_registry_access (fst (open_program host_notepad ''Notepad''))"
proof -
  have h: "snd (find_program_path host_notepad ''Notepad'') = Some notepad_exe"
    by (simp add: find_program_path_def host_notepad_def lower_simps notepad_exe_def)
  have l: "lower ''Notepad'' = ''notepad''"
    by (simp add: lower_simps)
  show ?thesis
    using resolve_search_path_first [OF h] h l by simp
qed

text \<open>
  C9: whatever the case of the letters of "word", when the search of the path finds
  nothing the registry is asked for the key of \<^verbatim>\<open>WINWORD.EXE\<close>.
\<close>

theorem resolve_word_any_case:
  "lower name = ''word'' \<Longrightarrow> snd (find_program_path h name) = None \<Longrightarrow>
   fst (resolve h name) = [Which ''word'', RegOpen (app_paths_key ''WINWORD.EXE'')]"
  by (simp add: resolve_def find_program_path_def find_office_path_def office_executable_def
      office_programs_def Let_def split: if_splits)

theorem resolve_word_any_case_witness:
  "lower ''WoRD'' = ''word'' \<and> snd (find_program_path host_empty ''WoRD'') = None \<and>
   fst (resolve host_empty ''WoRD'') = [Which ''word'', RegOpen (app_paths_key ''WINWORD.EXE'')]"
proof -
  have l: "lower ''WoRD'' = ''word''"
    by (simp add: lower_simps)
  have n: "snd (find_program_path host_empty ''WoRD'') = None"
    by (simp add: find_program_path_def host_empty_def)
  show ?thesis
    using resolve_word_any_case [OF l n] l n by simp
qed

lemma find_program_path_instance: "find_program_path = find_program_path_with lower"
  by (simp add: fun_eq_iff find_program_path_def find_program_path_with_def)

lemma is_ascii_greek:
  "\<not> is_ascii sigma_upper" "\<not> is_ascii alpha_sigma_upper" "\<not> is_ascii alpha_sigma_mixed"
  by (simp_all add: is_ascii_def sigma_upper_def alpha_sigma_upper_def alpha_sigma_mixed_def)

lemma lower_example_ascii: "is_ascii s \<Longrightarrow> lower_example s = lower s"
  using is_ascii_greek by (auto simp: lower_example_def)

text \<open>
  C10, as the specification states it: two names that differ only in the case of a letter
  are searched for under the same lowercased string. It fails beyond ASCII. Capital sigma
  and small sigma are the two cases of one letter, and the names "capital alpha, capital
  sigma" and "capital alpha, small sigma" differ in that letter only; but \<^verbatim>\<open>str.lower\<close>
  turns the first into "alpha, final sigma" and the second into "alpha, sigma", so
  \<^verbatim>\<open>shutil.which\<close> is asked two different questions, and on a host that has the program
  under the second name only the first name is not found.
\<close>

theorem find_program_path_final_sigma_counterexample:
  "lower_example sigma_upper = sigma_lower \<and>
   alpha_sigma_upper = [CHR 0xCE, CHR 0x91] @ sigma_upper \<and>
   alpha_sigma_mixed = [CHR 0xCE, CHR 0x91] @ sigma_lower \<and>
   find_program_path_with lower_example host_sigma alpha_sigma_upper =
     ([Which alpha_sigma_final], None) \<and>
   find_program_path_with lower_example host_sigma alpha_sigma_mixed =
     ([Which alpha_sigma_lower], Some (''C:/tools/'' @ alpha_sigma_lower @ ''.exe'')) \<and>
   alpha_sigma_final \<noteq> alpha_sigma_lower"
  by (simp add: find_program_path_with_def lower_example_def host_sigma_def sigma_upper_def
      sigma_lower_def alpha_sigma_upper_def alpha_sigma_mixed_def alpha_sigma_lower_def
      alpha_sigma_final_def)

text \<open>
  C10, amended: \<^verbatim>\<open>find_program_path\<close> asks \<^verbatim>\<open>shutil.which\<close> one question, the name as
  \<^verbatim>\<open>str.lower\<close> returns it, on every host; so two names that \<^verbatim>\<open>str.lower\<close> maps to the same
  string get the same result. Two ASCII names that differ only in the case of their letters
  are such a pair, and the string they are searched under holds no uppercase ASCII letter.
\<close>

theorem find_program_path_same_lowercase:
  "fst (find_program_path_with str_lower h a) = [Which (str_lower a)] \<and>
   (str_lower a = str_lower b \<longrightarrow>
      find_program_path_with str_lower h a = find_program_path_with str_lower h b) \<and>
   ((\<forall>s. is_ascii s \<longrightarrow> str_lower s = lower s) \<and>
    is_ascii a \<and> is_ascii b \<and> list_all2 case_variants a b \<longrightarrow>
      find_program_path_with str_lower h a = find_program_path_with str_lower h b \<and>
      fst (find_program_path_with str_lower h a) = [Which (lower a)] \<and>
      set (lower a) \<inter> set ascii_uppercase = {})"
proof (intro conjI impI)
  show "fst (find_program_path_with str_lower h a) = [Which (str_lower a)]"
    by (simp add: find_program_path_with_def Let_def)
next
  assume "str_lower a = str_lower b"
  then show "find_program_path_with str_lower h a = find_program_path_with str_lower h b"
    by (simp add: find_program_path_with_def)
next
  assume h: "(\<forall>s. is_ascii s \<longrightarrow> str_lower s = lower s) \<and>
    is_ascii a \<and> is_ascii b \<and> list_all2 case_variants a b"
  then have a: "str_lower a = lower a" and b: "str_lower b = lower b"
    by blast+
  have "lower a = lower b"
    using h case_variants_lower by blast
  then show "find_program_path_with str_lower h a = find_program_path_with str_lower h b"
    using a b by (simp add: find_program_path_with_def)
next
  assume h: "(\<forall>s. is_ascii s \<longrightarrow> str_lower s = lower s) \<and>
    is_ascii a \<and> is_ascii b \<and> list_all2 case_variants a b"
  then have "str_lower a = lower a"
    by blast
  then show "fst (find_program_path_with str_lower h a) = [Which (lower a)]"
    by (simp add: find_program_path_with_def Let_def)
next
  show "set (lower a) \<inter> set ascii_uppercase = {}"
    by (rule lower_no_upper)
qed

theorem find_program_path_same_lowercase_witness:
  "is_ascii ''Notepad'' \<and> is_ascii ''nOTEPAD'' \<and>
   list_all2 case_variants ''Notepad'' ''nOTEPAD'' \<and>
   lower_example ''Notepad'' = lower_example ''nOTEPAD'' \<and>
   find_program_path_with lower_example host_notepad ''Notepad'' =
     ([Which ''notepad''], Some notepad_exe) \<and>
   find_program_path_with lower_example host_notepad ''nOTEPAD'' =
     ([Which ''notepad''], Some notepad_exe)"
proof -
  have a: "is_ascii ''Notepad''" and b: "is_ascii ''nOTEPAD''"
    by (simp_all add: is_ascii_def)
  have v: "list_all2 case_variants ''Notepad'' ''nOTEPAD''"
    by (simp add: case_variants_def ascii_uppercase_def ascii_lowercase_def)
  have e: "\<forall>s. is_ascii s \<longrightarrow> lower_example s = lower s"
    using lower_example_ascii by blast
  have l: "lower ''Notepad'' = ''notepad''"
    by (simp add: lower_simps)
  have w: "shutil_which host_notepad ''notepad'' = Some notepad_exe"
    by (simp add: host_notepad_def)
  have n: "notepad_exe \<noteq> []"
    by (simp add: notepad_exe_def)
  note t = find_program_path_same_lowercase
      [where str_lower = lower_example and h = host_notepad
         and a = "''Notepad''" and b = "''nOTEPAD''"]
  have q: "lower_example ''Notepad'' = ''notepad''"
    using lower_example_ascii [OF a] l by simp
  have r: "find_program_path_with lower_example host_notepad ''Notepad'' =
      find_program_path_with lower_example host_notepad ''nOTEPAD''"
    using t a b v e by blast
  have p: "find_program_path_with lower_example host_notepad ''Notepad'' =
      ([Which ''notepad''], Some notepad_exe)"
    unfolding find_program_path_with_def q using w n by simp
  have s: "lower_example ''Notepad'' = lower_example ''nOTEPAD''"
    using lower_example_ascii [OF a] lower_example_ascii [OF b] case_variants_lower [OF v]
    by simp
  show ?thesis
    using a b v s r p by simp
qed


section \<open>Command Executor\<close>

text \<open>
  C6: a command that does not start with "Error" is run once through the shell with both
  streams captured; when it exits with status 0 the result is the captured standard output
  and nothing else, and when it exits with another status the result is "Error: " followed
  by the captured standard error, the standard output being dropped.
\<close>

theorem run_command_result:
  "\<not> startswith command ''Error'' \<Longrightarrow>
   subprocess_run h command = Completed returncode out err \<Longrightarrow>
   run_command h command =
     ([Run command], if returncode = 0 then out else ''Error: '' @ err)"
  by (simp add: run_command_def)

theorem run_command_result_witness:
  "\<not> startswith ''echo %cd%'' ''Error'' \<and>
   run_command host_notepad ''echo %cd%'' = ([Run ''echo %cd%''], ''C:/Users'') \<and>
   \<not> startswith ''dir nowhere'' ''Error'' \<and>
   run_command host_notepad ''dir nowhere'' = ([Run ''dir nowhere''], ''Error: File Not Found'')"
proof -
  have a: "\<not> startswith ''echo %cd%'' ''Error''"
    by (simp add: startswith_def)
  have b: "subprocess_run host_notepad ''echo %cd%'' = Completed 0 ''C:/Users'' []"
    by (simp add: host_notepad_def)
  have c: "\<not> startswith ''dir nowhere'' ''Error''"
    by (simp add: startswith_def)
  have d: "subprocess_run host_notepad ''dir nowhere'' = Completed 1 [] ''File Not Found''"
    by (simp add: host_notepad_def)
  show ?thesis
    using run_command_result [OF a b] run_command_result [OF c d] a c by simp
qed

lemma contains_dir_Error: "contains ''dir Error'' ''Error''"
  unfolding contains_def by code_simp

text \<open>
  C7, as the specification states it: a command built for \<^verbatim>\<open>list_directory\<close> never contains
  the marker "Error". It fails when the path contains it.
\<close>

theorem construct_command_marker_counterexample:
  "construct_command host_empty ''list_directory'' [''path'' \<mapsto> ''Error''] = ([], ''dir Error'') \<and>
   contains ''dir Error'' ''Error''"
  using contains_dir_Error
  by (simp add: construct_command_def dict_get_def is_win_def startswith_def host_empty_def)

text \<open>
  C7, amended: \<^verbatim>\<open>run_command\<close> returns a string that starts with "Error" as it is, with no
  call to the operating system; and the command built for \<^verbatim>\<open>list_directory\<close> or
  \<^verbatim>\<open>show_path\<close> never starts with "Error", so \<^verbatim>\<open>run_command\<close> always runs it.
\<close>

theorem run_command_error_marker:
  "(startswith command ''Error'' \<longrightarrow> run_command h command = ([], command)) \<and>
   (action = ''list_directory'' \<or> action = ''show_path'' \<longrightarrow>
      \<not> startswith (snd (construct_command h action details)) ''Error'' \<and>
      fst (run_command h (snd (construct_command h action details))) =
        [Run (snd (construct_command h action details))])"
  by (auto simp: run_command_def construct_command_def startswith_def Let_def)

theorem run_command_error_marker_witness:
  "startswith ''Error: Unsupported action.'' ''Error'' \<and>
   run_command host_notepad ''Error: Unsupported action.'' = ([], ''Error: Unsupported action.'') \<and>
   \<not> startswith (snd (construct_command host_notepad ''list_directory'' [''path'' \<mapsto> ''Error''])) ''Error'' \<and>
   fst (run_command host_notepad
         (snd (construct_command host_notepad ''list_directory'' [''path'' \<mapsto> ''Error'']))) =
     [Run ''dir Error'']"
proof -
  have a: "startswith ''Error: Unsupported action.'' ''Error''"
    by (simp add: startswith_def)
  have b: "snd (construct_command host_notepad ''list_directory'' [''path'' \<mapsto> ''Error'']) =
      ''dir Error''"
    by (simp add: construct_command_def dict_get_def is_win_def startswith_def host_notepad_def)
  show ?thesis
    using run_command_error_marker
        [where command = "''Error: Unsupported action.''" and h = host_notepad
           and action = "''list_directory''" and details = "[''path'' \<mapsto> ''Error'']"]
      a b
    by simp
qed


section \<open>Intent Parser: extraction\<close>

lemma not_isspace_braces: "\<not> isspace (CHR ''{'')" "\<not> isspace (CHR ''}'')"
  by (simp_all add: isspace_def)

lemma strip_around_braces:
  "strip (pre @ CHR ''{'' # body @ CHR ''}'' # post) =
     dropWhile isspace pre @ CHR ''{'' # body @ CHR ''}'' # rev (dropWhile isspace (rev post))"
proof -
  have a: "dropWhile isspace (pre @ CHR ''{'' # body @ CHR ''}'' # post) =
        dropWhile isspace pre @ CHR ''{'' # body @ CHR ''}'' # post"
    using not_isspace_braces(1) by (rule dropWhile_append3)
  have b: "rev (dropWhile isspace pre @ CHR ''{'' # body @ CHR ''}'' # post) =
        rev post @ CHR ''}'' # (rev body @ CHR ''{'' # rev (dropWhile isspace pre))"
    by simp
  have c: "dropWhile isspace (rev post @ CHR ''}'' # (rev body @ CHR ''{'' # rev (dropWhile isspace pre))) =
        dropWhile isspace (rev post) @ CHR ''}'' # (rev body @ CHR ''{'' # rev (dropWhile isspace pre))"
    using not_isspace_braces(2) by (rule dropWhile_append3)
  show ?thesis
    unfolding strip_def a b c by simp
qed

lemma dropWhile_upto_first:
  "c \<notin> set xs \<Longrightarrow> dropWhile (\<lambda>x. x \<noteq> c) (xs @ c # ys) = c # ys"
  by (induction xs) auto

lemma search_braces_span:
  assumes "CHR ''{'' \<notin> set pre" and "CHR ''}'' \<notin> set post"
  shows "search_braces (pre @ CHR ''{'' # body @ CHR ''}'' # post) = Some (CHR ''{'' # body @ ''}'')"
proof -
  have a: "dropWhile (\<lambda>c. c \<noteq> CHR ''{'') (pre @ CHR ''{'' # body @ CHR ''}'' # post) =
        CHR ''{'' # body @ CHR ''}'' # post"
    using assms(1) by (rule dropWhile_upto_first)
  have "CHR ''}'' \<notin> set (rev post)" using assms(2) by simp
  then have b: "dropWhile (\<lambda>c. c \<noteq> CHR ''}'') (rev post @ CHR ''}'' # rev body) = CHR ''}'' # rev body"
    by (rule dropWhile_upto_first)
  show ?thesis unfolding search_braces_def a using b by simp
qed

lemma query_model_span:
  assumes "CHR ''{'' \<notin> set pre" and "CHR ''}'' \<notin> set post"
  shows "query_model (Completed 0 (pre @ CHR ''{'' # body @ CHR ''}'' # post) err) = CHR ''{'' # body @ ''}''"
proof -
  have 1: "CHR ''{'' \<notin> set (dropWhile isspace pre)"
    using assms(1) by (auto dest: set_dropWhileD)
  have 2: "CHR ''}'' \<notin> set (rev (dropWhile isspace (rev post)))"
    using assms(2) by (auto dest: set_dropWhileD)
  show ?thesis
    by (simp add: query_model_def strip_around_braces search_braces_span [OF 1 2])
qed


lemma search_braces_Some_decomp:
  assumes "search_braces s = Some m"
  shows "\<exists>pre body post. s = pre @ CHR ''{'' # body @ CHR ''}'' # post \<and> m = CHR ''{'' # body @ ''}''"
proof -
  let ?P = "\<lambda>c. c \<noteq> CHR ''{''"
  let ?Q = "\<lambda>c. c \<noteq> CHR ''}''"
  obtain b rest where d: "dropWhile ?P s = b # rest"
    using assms by (cases "dropWhile ?P s") (simp_all add: search_braces_def)
  obtain c cs where e: "dropWhile ?Q (rev rest) = c # cs"
    using assms d by (cases "dropWhile ?Q (rev rest)") (simp_all add: search_braces_def)
  have m: "m = b # rev cs @ [c]"
    using assms d e by (simp add: search_braces_def)
  have b: "b = CHR ''{''"
    using hd_dropWhile [of ?P s] d by simp
  have c: "c = CHR ''}''"
    using hd_dropWhile [of ?Q "rev rest"] e by simp
  have "takeWhile ?P s @ dropWhile ?P s = s"
    by (rule takeWhile_dropWhile_id)
  then have s: "s = takeWhile ?P s @ CHR ''{'' # rest"
    unfolding d b by simp
  have "takeWhile ?Q (rev rest) @ dropWhile ?Q (rev rest) = rev rest"
    by (rule takeWhile_dropWhile_id)
  then have "rev (takeWhile ?Q (rev rest) @ CHR ''}'' # cs) = rev (rev rest)"
    unfolding e c by simp
  then have r: "rest = rev cs @ CHR ''}'' # rev (takeWhile ?Q (rev rest))"
    by simp
  have "s = takeWhile ?P s @ CHR ''{'' # rev cs @ CHR ''}'' # rev (takeWhile ?Q (rev rest))"
    using s r by simp
  moreover have "m = CHR ''{'' # rev cs @ ''}''"
    using m b c by simp
  ultimately show ?thesis by blast
qed

lemma search_braces_finds:
  "search_braces (pre @ CHR ''{'' # body @ CHR ''}'' # post) \<noteq> None"
proof -
  let ?s = "pre @ CHR ''{'' # body @ CHR ''}'' # post"
  have "\<exists>p1 rest. ?s = p1 @ CHR ''{'' # rest \<and> CHR ''{'' \<notin> set p1 \<and> CHR ''}'' \<in> set rest"
  proof (cases "CHR ''{'' \<in> set pre")
    case True
    then obtain p1 p2 where "pre = p1 @ CHR ''{'' # p2" and "CHR ''{'' \<notin> set p1"
      using split_list_first [OF True] by blast
    then have "?s = p1 @ CHR ''{'' # (p2 @ CHR ''{'' # body @ CHR ''}'' # post) \<and> CHR ''{'' \<notin> set p1
         \<and> CHR ''}'' \<in> set (p2 @ CHR ''{'' # body @ CHR ''}'' # post)"
      by simp
    then show ?thesis by blast
  next
    case False
    then have "?s = pre @ CHR ''{'' # (body @ CHR ''}'' # post) \<and> CHR ''{'' \<notin> set pre
         \<and> CHR ''}'' \<in> set (body @ CHR ''}'' # post)"
      by simp
    then show ?thesis by blast
  qed
  then obtain p1 rest where s: "?s = p1 @ CHR ''{'' # rest" and p1: "CHR ''{'' \<notin> set p1"
    and r: "CHR ''}'' \<in> set rest"
    by blast
  have a: "dropWhile (\<lambda>c. c \<noteq> CHR ''{'') ?s = CHR ''{'' # rest"
    unfolding s using p1 by (rule dropWhile_upto_first)
  have "dropWhile (\<lambda>c. c \<noteq> CHR ''}'') (rev rest) \<noteq> []"
    using r by simp
  then show ?thesis
    unfolding search_braces_def a by (simp split: list.splits)
qed

lemma search_braces_None_iff:
  "search_braces s = None \<longleftrightarrow> (\<forall>pre body post. s \<noteq> pre @ CHR ''{'' # body @ CHR ''}'' # post)"
proof
  assume n: "search_braces s = None"
  show "\<forall>pre body post. s \<noteq> pre @ CHR ''{'' # body @ CHR ''}'' # post"
  proof (intro allI notI)
    fix pre body post
    assume "s = pre @ CHR ''{'' # body @ CHR ''}'' # post"
    then show False using search_braces_finds [of pre body post] n by simp
  qed
next
  assume a: "\<forall>pre body post. s \<noteq> pre @ CHR ''{'' # body @ CHR ''}'' # post"
  show "search_braces s = None"
  proof (cases "search_braces s")
    case None
    then show ?thesis .
  next
    case (Some m)
    then show ?thesis using search_braces_Some_decomp [OF Some] a by blast
  qed
qed

lemma strip_inside: "\<exists>a b. s = a @ strip s @ b"
proof -
  let ?t = "dropWhile isspace s"
  have "strip s @ rev (takeWhile isspace (rev ?t)) =
      rev (takeWhile isspace (rev ?t) @ dropWhile isspace (rev ?t))"
    unfolding strip_def by (simp only: rev_append)
  also have "\<dots> = ?t"
    by simp
  finally have 2: "strip s @ rev (takeWhile isspace (rev ?t)) = ?t" .
  have "takeWhile isspace s @ ?t = s"
    by (rule takeWhile_dropWhile_id)
  then have "s = takeWhile isspace s @ strip s @ rev (takeWhile isspace (rev ?t))"
    unfolding 2 by (rule sym)
  then show ?thesis by blast
qed

lemma query_model_no_braces:
  assumes "\<forall>pre body post. raw \<noteq> pre @ CHR ''{'' # body @ CHR ''}'' # post"
  shows "query_model (Completed 0 raw err) = ''Error: No valid JSON found in model output.''"
proof -
  obtain a b where s: "raw = a @ strip raw @ b"
    using strip_inside by blast
  have "search_braces (strip raw) = None"
  proof (cases "search_braces (strip raw)")
    case None
    then show ?thesis .
  next
    case (Some m)
    then obtain pre body post where "strip raw = pre @ CHR ''{'' # body @ CHR ''}'' # post"
      using search_braces_Some_decomp [OF Some] by blast
    then have "raw = a @ (pre @ CHR ''{'' # body @ CHR ''}'' # post) @ b"
      using s by simp
    then have "raw = (a @ pre) @ CHR ''{'' # body @ CHR ''}'' # (post @ b)"
      by simp
    then show ?thesis using assms by blast
  qed
  then show ?thesis by (simp add: query_model_def)
qed

lemma contains_Error_message:
  "contains ''Error: No valid JSON found in model output.'' ''Error''"
  unfolding contains_def by (rule prefix_imp_sublist) simp

text \<open>
  C5, as the specification states it: the one well-formed object is extracted whatever the
  noise around it. It fails when the noise holds a brace: the match runs to the last closing
  brace of the text, and what is handed to the deserializer is the object and the noise up
  to that brace, which is not valid JSON. It also fails for an object whose text
  contains "Error": the main loop takes the extracted text for an error message and never
  deserializes it.
\<close>

theorem parse_noise_counterexample:
  \<open>query_model (Completed 0 ''{"action":"show_path"} }'' []) = ''{"action":"show_path"} }'' \<and>
   parse loads_example (query_model (Completed 0 ''{"action":"show_path"} }'' [])) =
     ParseError ''Error: Invalid JSON output from model.'' \<and>
   parse loads_example ''{"action":"show_path"}'' =
     Intent ''show_path'' [''action'' \<mapsto> ''show_path''] \<and>
   parse loads_example
     (query_model (Completed 0 ''{"action":"open_program","program":"Error Reporting"}'' [])) =
     ParseError ''{"action":"open_program","program":"Error Reporting"}''\<close>
proof -
  have a: \<open>query_model (Completed 0 ''{"action":"show_path"} }'' []) =
      ''{"action":"show_path"} }''\<close>
    by (simp add: query_model_def strip_def isspace_def search_braces_def)
  have b: \<open>\<not> contains ''{"action":"show_path"} }'' ''Error''\<close>
    unfolding contains_def by code_simp
  have c: \<open>\<not> contains ''{"action":"show_path"}'' ''Error''\<close>
    unfolding contains_def by code_simp
  have d: \<open>query_model (Completed 0 ''{"action":"open_program","program":"Error Reporting"}'' []) =
      ''{"action":"open_program","program":"Error Reporting"}''\<close>
    by (simp add: query_model_def strip_def isspace_def search_braces_def)
  have e: \<open>contains ''{"action":"open_program","program":"Error Reporting"}'' ''Error''\<close>
    unfolding contains_def by code_simp
  show ?thesis
    unfolding a d using b c e by (simp add: parse_def loads_example_def)
qed

text \<open>
  C5, amended. Let the raw text be noise, an object from its opening to its closing brace,
  and noise again, with no opening brace in the noise before and no closing brace in the
  noise after. Then \<^verbatim>\<open>query_model\<close> returns exactly the object; and when the object does not
  contain "Error" and deserializes to a dictionary with a non-empty action, the main loop
  obtains that action and that dictionary. And when the raw text has no opening brace
  followed by a closing brace, the result is the diagnostic "Error: No valid JSON found in
  model output.".
\<close>

theorem parse_brace_free_noise:
  "(CHR ''{'' \<notin> set pre \<and> CHR ''}'' \<notin> set post \<longrightarrow>
      query_model (Completed 0 (pre @ CHR ''{'' # body @ CHR ''}'' # post) err) =
        CHR ''{'' # body @ ''}'') \<and>
   (CHR ''{'' \<notin> set pre \<and> CHR ''}'' \<notin> set post \<and>
    \<not> contains (CHR ''{'' # body @ ''}'') ''Error'' \<and>
    loads (CHR ''{'' # body @ ''}'') = Some data \<and>
    data ''action'' = Some action \<and> action \<noteq> [] \<longrightarrow>
      parse loads (query_model (Completed 0 (pre @ CHR ''{'' # body @ CHR ''}'' # post) err)) =
        Intent action data) \<and>
   ((\<forall>pre body post. raw \<noteq> pre @ CHR ''{'' # body @ CHR ''}'' # post) \<longrightarrow>
      query_model (Completed 0 raw err) = ''Error: No valid JSON found in model output.'' \<and>
      parse loads (query_model (Completed 0 raw err)) =
        ParseError ''Error: No valid JSON found in model output.'')"
  using contains_Error_message
  by (simp add: query_model_span query_model_no_braces parse_def)

theorem parse_brace_free_noise_witness:
  \<open>CHR ''{'' \<notin> set ''Hello! '' \<and> CHR ''}'' \<notin> set '' thanks'' \<and>
   \<not> contains ''{"action":"show_path"}'' ''Error'' \<and>
   loads_example ''{"action":"show_path"}'' = Some [''action'' \<mapsto> ''show_path''] \<and>
   query_model (Completed 0 ''Hello! {"action":"show_path"} thanks'' []) =
     ''{"action":"show_path"}'' \<and>
   parse loads_example (query_model (Completed 0 ''Hello! {"action":"show_path"} thanks'' [])) =
     Intent ''show_path'' [''action'' \<mapsto> ''show_path''] \<and>
   (\<forall>pre body post. ''} I cannot do that {'' \<noteq> pre @ CHR ''{'' # body @ CHR ''}'' # post) \<and>
   parse loads_example (query_model (Completed 0 ''} I cannot do that {'' [])) =
     ParseError ''Error: No valid JSON found in model output.''\<close>
proof -
  have a: "CHR ''{'' \<notin> set ''Hello! '' \<and> CHR ''}'' \<notin> set '' thanks''"
    by simp
  have b: \<open>\<not> contains ''{"action":"show_path"}'' ''Error''\<close>
    unfolding contains_def by code_simp
  have c: \<open>loads_example ''{"action":"show_path"}'' = Some [''action'' \<mapsto> ''show_path'']\<close>
    by (simp add: loads_example_def)
  have "search_braces ''} I cannot do that {'' = None"
    by (simp add: search_braces_def)
  then have d: "\<forall>pre body post. ''} I cannot do that {'' \<noteq> pre @ CHR ''{'' # body @ CHR ''}'' # post"
    by (rule search_braces_None_iff [THEN iffD1])
  have e: \<open>''Hello! '' @ CHR ''{'' # ''"action":"show_path"'' @ CHR ''}'' # '' thanks'' =
      ''Hello! {"action":"show_path"} thanks''\<close>
    by simp
  have f: \<open>CHR ''{'' # ''"action":"show_path"'' @ ''}'' = ''{"action":"show_path"}''\<close>
    by simp
  have g: "[''action'' \<mapsto> ''show_path''] ''action'' = Some ''show_path'' \<and> ''show_path'' \<noteq> []"
    by simp
  note t = parse_brace_free_noise
      [where pre = "''Hello! ''" and post = "'' thanks''" and err = "[]"
         and loads = loads_example and data = "[''action'' \<mapsto> ''show_path'']"
         and action = "''show_path''" and raw = "''} I cannot do that {''",
       where body = \<open>''"action":"show_path"''\<close>, unfolded e f]
  show ?thesis
    using t a b c d g by blast
qed

end
